theory Spec2Isabelle
  imports Main
begin

section \<open>Errors\<close>

text \<open>
  A Go \<^verbatim>\<open>error\<close> is an interface value with an \<^verbatim>\<open>Error() string\<close> method; a nil
  error is \<open>None\<close>. The program builds errors with \<^verbatim>\<open>errors.New\<close> and
  \<^verbatim>\<open>fmt.Errorf\<close> (an error that is its message), receives from \<^verbatim>\<open>os.Stat\<close> the
  error of a missing path (the one kind it tests for, with \<^verbatim>\<open>os.IsNotExist\<close>), and
  passes on every other error of the operating system, of \<^verbatim>\<open>os/exec\<close> and of
  \<^verbatim>\<open>bufio\<close> unread.
\<close>

datatype error =
    ErrorString string
  | NotExistError string
  | SysError string

text \<open>The method \<^verbatim>\<open>Error()\<close>: the message of an error.\<close>

fun Error_method :: "error \<Rightarrow> string" where
  "Error_method (ErrorString s) = s"
| "Error_method (NotExistError p) = ''stat '' @ p @ '': no such file or directory''"
| "Error_method (SysError s) = s"

fun IsNotExist :: "error option \<Rightarrow> bool" where
  "IsNotExist (Some (NotExistError p)) = True"
| "IsNotExist e = False"


section \<open>The structured-output parser (vagrant.go)\<close>

datatype Status = Unknown | NotCreated | Running | Saved | PowerOff

text \<open>
  \<^verbatim>\<open>parseData\<close>: the loop over the records, with the variable \<^verbatim>\<open>data\<close> as the
  accumulator. \<^verbatim>\<open>record[2]\<close> and \<^verbatim>\<open>record[3]\<close> are read only behind the guard
  \<^verbatim>\<open>len(record) < 4\<close>, so no index is out of range.
\<close>

fun parseData_loop :: "string list list \<Rightarrow> string \<Rightarrow> string \<Rightarrow> string" where
  "parseData_loop [] typeName data = data"
| "parseData_loop (rec # records) typeName data =
     (if length rec < 4 then parseData_loop records typeName data
      else if typeName = rec ! 2 then parseData_loop records typeName (rec ! 3)
      else parseData_loop records typeName data)"

definition parseData :: "string list list \<Rightarrow> string \<Rightarrow> string \<times> error option" where
  "parseData records typeName =
     (let data = parseData_loop records typeName '''' in
      if data = ''''
      then ('''', Some (ErrorString
              (''couldn'' @ [CHR 0x27] @ ''t parse data for vagrant type: '' @ [CHR 0x27]
                 @ typeName @ [CHR 0x27])))
      else (data, None))"

text \<open>
  The parser as the specification words it: the rows that take part are those with at
  least four fields whose field 2 is the name; the value is field 3 of the last of them.
\<close>

definition matching_rows :: "string list list \<Rightarrow> string \<Rightarrow> string list list" where
  "matching_rows table fieldName = filter (\<lambda>row. 4 \<le> length row \<and> row ! 2 = fieldName) table"

definition parseField_spec :: "string list list \<Rightarrow> string \<Rightarrow> string option" where
  "parseField_spec table fieldName =
     (let ms = matching_rows table fieldName in
      if ms = [] then None
      else if last ms ! 3 = '''' then None
      else Some (last ms ! 3))"

text \<open>\<^verbatim>\<open>toStatus\<close> returns a pair in Go: the status and the error.\<close>

definition toStatus :: "string \<Rightarrow> Status \<times> error option" where
  "toStatus state =
     (if state = ''running'' then (Running, None)
      else if state = ''not_created'' then (NotCreated, None)
      else if state = ''saved'' then (Saved, None)
      else if state = ''poweroff'' then (PowerOff, None)
      else (Unknown, Some (ErrorString (''Unknown state: '' @ state))))"


section \<open>The world outside the program\<close>

text \<open>
  \<^verbatim>\<open>exec.Command("vagrant", args...)\<close> with its \<^verbatim>\<open>Dir\<close>: the argument vector starts
  with the program's name.
\<close>

record Cmd =
  Args :: "string list"
  Dir :: string

datatype BoxSubcommand = Add | List | Outdated | Remove | Repackage | Update

text \<open>An invocation of a completion callback of a \<^verbatim>\<open>command\<close>.\<close>

datatype callback = OnSuccess | OnFailure error

text \<open>A call of \<^verbatim>\<open>cmd.debugf\<close>, by its place in the source.\<close>

datatype debug_entry =
    Executing string "string list"
  | Successful "string list" string
  | Failed "string list" error
  | Scanned string

text \<open>
  What the program changes: the files and directories on disk, the subprocesses it has
  started (in order), the lines written with \<^verbatim>\<open>log.Printf\<close>, the entries written to
  a command's logger, and the completion callbacks invoked (in order).
\<close>

record world =
  files :: "string \<rightharpoonup> string"
  dirs :: "string set"
  spawned :: "Cmd list"
  printed :: "string list"
  debugged :: "debug_entry list"
  fired :: "callback list"

text \<open>
  What the program only reads: the results of the library and system calls it makes.
  \<^item> \<open>user_Current\<close>: the home directory and the error of \<^verbatim>\<open>user.Current()\<close>;
  \<^item> \<open>filepath_Join\<close>, \<open>strings_TrimSpace\<close>, \<open>csv_ReadAll\<close>: the library functions
    of these names;
  \<^item> \<open>BoxSubcommand_String\<close>: the method of the generated file \<^verbatim>\<open>stringer.go\<close>;
  \<^item> \<open>MkdirAll_err\<close>: the error of \<^verbatim>\<open>os.MkdirAll\<close> on a path;
  \<^item> \<open>Stat_err\<close>: a failure of \<^verbatim>\<open>os.Stat\<close> on a path other than its absence (such
    as a directory that cannot be searched), by its message;
  \<^item> \<open>WriteFile_fail\<close>: a failure of \<^verbatim>\<open>ioutil.WriteFile\<close> on a path, with what it
    left in the file (\<open>None\<close> when it did not create it);
  \<^item> \<open>StdoutPipe_err\<close>, \<open>StderrPipe_err\<close>, \<open>Start_err\<close>: the errors of these
    methods of a command;
  \<^item> \<open>proc_combined\<close>: the bytes the process writes to stdout and stderr together;
  \<^item> \<open>proc_wait\<close>: the error of \<^verbatim>\<open>Wait\<close>, such as a non-zero exit status;
  \<^item> \<open>scan_multi\<close>: the lines that a \<^verbatim>\<open>bufio.Scanner\<close> yields from
    \<^verbatim>\<open>io.MultiReader(stderrPipe, stdoutPipe)\<close> of the process, and its \<^verbatim>\<open>Err()\<close>;
  \<^item> \<open>scan_stdout\<close>, \<open>scan_stderr\<close>: the same for a scanner of its own on each
    pipe, when the pipe is read to its end.
\<close>

record env =
  user_Current :: "string \<times> error option"
  filepath_Join :: "string list \<Rightarrow> string"
  strings_TrimSpace :: "string \<Rightarrow> string"
  csv_ReadAll :: "string \<Rightarrow> string list list \<times> error option"
  BoxSubcommand_String :: "BoxSubcommand \<Rightarrow> string"
  MkdirAll_err :: "string \<Rightarrow> error option"
  Stat_err :: "string \<Rightarrow> string option"
  WriteFile_fail :: "string \<Rightarrow> (error \<times> string option) option"
  StdoutPipe_err :: "Cmd \<Rightarrow> error option"
  StderrPipe_err :: "Cmd \<Rightarrow> error option"
  Start_err :: "Cmd \<Rightarrow> error option"
  proc_combined :: "Cmd \<Rightarrow> string"
  proc_wait :: "Cmd \<Rightarrow> error option"
  scan_multi :: "Cmd \<Rightarrow> string list \<times> error option"
  scan_stdout :: "Cmd \<Rightarrow> string list \<times> error option"
  scan_stderr :: "Cmd \<Rightarrow> string list \<times> error option"

text \<open>\<^verbatim>\<open>os.Stat\<close>, by its error: a path that is on disk has none.\<close>

definition os_Stat :: "env \<Rightarrow> world \<Rightarrow> string \<Rightarrow> error option" where
  "os_Stat e w path =
     (case Stat_err e path of
        Some msg \<Rightarrow> Some (SysError msg)
      | None \<Rightarrow> if path \<in> dom (files w) \<or> path \<in> dirs w then None
                else Some (NotExistError path))"

definition ioutil_WriteFile :: "env \<Rightarrow> string \<Rightarrow> string \<Rightarrow> world \<Rightarrow> error option \<times> world" where
  "ioutil_WriteFile e path data w =
     (case WriteFile_fail e path of
        None \<Rightarrow> (None, w\<lparr>files := (files w)(path \<mapsto> data)\<rparr>)
      | Some (err, None) \<Rightarrow> (Some err, w)
      | Some (err, Some left) \<Rightarrow> (Some err, w\<lparr>files := (files w)(path \<mapsto> left)\<rparr>))"

text \<open>\<^verbatim>\<open>cmd.Start()\<close>: a process is started unless the call fails.\<close>

definition exec_Start :: "env \<Rightarrow> Cmd \<Rightarrow> world \<Rightarrow> error option \<times> world" where
  "exec_Start e c w =
     (case Start_err e c of
        Some err \<Rightarrow> (Some err, w)
      | None \<Rightarrow> (None, w\<lparr>spawned := spawned w @ [c]\<rparr>))"

text \<open>
  \<^verbatim>\<open>cmd.CombinedOutput()\<close> starts the process, collects what it writes and waits for
  it; when the start fails nothing was collected.
\<close>

definition exec_CombinedOutput :: "env \<Rightarrow> Cmd \<Rightarrow> world \<Rightarrow> (string \<times> error option) \<times> world" where
  "exec_CombinedOutput e c w =
     (case exec_Start e c w of
        (Some err, w') \<Rightarrow> (('''', Some err), w')
      | (None, w') \<Rightarrow> ((proc_combined e c, proc_wait e c), w'))"


section \<open>The session (vagrant.go)\<close>

record Vagrant =
  VagrantfilePath :: string

record CommandOutput =
  Line :: string
  Error :: "error option"

definition NewVagrant :: "env \<Rightarrow> string \<Rightarrow> world \<Rightarrow> (Vagrant option \<times> error option) \<times> world" where
  "NewVagrant e name w =
     (case user_Current e of (homeDir, err) \<Rightarrow>
        if err \<noteq> None then ((None, err), w)
        else if name = '''' then ((None, err), w)
        else
          let vagrantHome = filepath_Join e [homeDir, ''.koding-boxes'', name] in
          (case MkdirAll_err e vagrantHome of
             Some err' \<Rightarrow> ((None, Some err'), w)
           | None \<Rightarrow> ((Some \<lparr>VagrantfilePath = vagrantHome\<rparr>, None),
                       w\<lparr>dirs := insert vagrantHome (dirs w)\<rparr>)))"

definition vagrantfile :: "env \<Rightarrow> Vagrant \<Rightarrow> string" where
  "vagrantfile e v = filepath_Join e [VagrantfilePath v, ''Vagrantfile'']"

definition vagrantfileExists :: "env \<Rightarrow> Vagrant \<Rightarrow> world \<Rightarrow> error option" where
  "vagrantfileExists e v w =
     (let err = os_Stat e w (vagrantfile e v) in
      if IsNotExist err then err else None)"

definition createCommand :: "Vagrant \<Rightarrow> string list \<Rightarrow> Cmd" where
  "createCommand v args = \<lparr>Args = ''vagrant'' # args, Dir = VagrantfilePath v\<rparr>"

definition runCommand :: "env \<Rightarrow> Vagrant \<Rightarrow> string list \<Rightarrow> world \<Rightarrow> (string \<times> error option) \<times> world" where
  "runCommand e v args w =
     (let args' = args @ [''--machine-readable''];
          cmd = \<lparr>Args = ''vagrant'' # args', Dir = VagrantfilePath v\<rparr> in
      case exec_CombinedOutput e cmd w of
        ((out, Some err), w') \<Rightarrow> (('''', Some err), w')
      | ((out, None), w') \<Rightarrow> ((out, None), w'))"

definition parseRecords :: "env \<Rightarrow> string \<Rightarrow> string list list \<times> error option" where
  "parseRecords e out = csv_ReadAll e out"

definition Version :: "env \<Rightarrow> Vagrant \<Rightarrow> world \<Rightarrow> (string \<times> error option) \<times> world" where
  "Version e v w =
     (case runCommand e v [''version''] w of
        ((out, Some err), w') \<Rightarrow> (('''', Some err), w')
      | ((out, None), w') \<Rightarrow>
          (case parseRecords e out of
             (records, Some err) \<Rightarrow> (('''', Some err), w')
           | (records, None) \<Rightarrow>
               (case parseData records ''version-installed'' of
                  (versionInstalled, Some err) \<Rightarrow> (('''', Some err), w')
                | (versionInstalled, None) \<Rightarrow> ((versionInstalled, None), w'))))"

definition Box :: "env \<Rightarrow> Vagrant \<Rightarrow> BoxSubcommand \<Rightarrow> world \<Rightarrow> (string \<times> error option) \<times> world" where
  "Box e v subcommand w =
     (case runCommand e v [''box'', BoxSubcommand_String e subcommand] w of
        ((out, Some err), w') \<Rightarrow> (('''', Some err), w')
      | ((out, None), w') \<Rightarrow> ((strings_TrimSpace e out, None), w'))"

definition Status :: "env \<Rightarrow> Vagrant \<Rightarrow> world \<Rightarrow> (Status \<times> error option) \<times> world" where
  "Status e v w =
     (case vagrantfileExists e v w of
        Some err \<Rightarrow> ((Unknown, Some err), w)
      | None \<Rightarrow>
         (case runCommand e v [''status''] w of
            ((out, Some err), w') \<Rightarrow> ((Unknown, Some err), w')
          | ((out, None), w') \<Rightarrow>
              (case parseRecords e out of
                 (records, Some err) \<Rightarrow> ((Unknown, Some err), w')
               | (records, None) \<Rightarrow>
                   (case parseData records ''state'' of
                      (status, Some err) \<Rightarrow> ((Unknown, Some err), w')
                    | (status, None) \<Rightarrow> (toStatus status, w')))))"

text \<open>
  The goroutine of \<^verbatim>\<open>Up\<close> is the channel's only sender, so the channel is the list
  of the events it sends before it closes the channel: a line event for each line
  scanned, the scanner's error if it has one, the error of \<^verbatim>\<open>Wait\<close> if it has one.
\<close>

definition Up_events :: "env \<Rightarrow> Cmd \<Rightarrow> CommandOutput list" where
  "Up_events e c =
     (case scan_multi e c of (lines, scanErr) \<Rightarrow>
        map (\<lambda>text. \<lparr>Line = text, Error = None\<rparr>) lines
        @ (case scanErr of None \<Rightarrow> [] | Some err \<Rightarrow> [\<lparr>Line = '''', Error = Some err\<rparr>])
        @ (case proc_wait e c of None \<Rightarrow> [] | Some err \<Rightarrow> [\<lparr>Line = '''', Error = Some err\<rparr>]))"

definition Up :: "env \<Rightarrow> Vagrant \<Rightarrow> string \<Rightarrow> world \<Rightarrow> (CommandOutput list option \<times> error option) \<times> world" where
  "Up e v content w =
     (if content = '''' then ((None, Some (ErrorString ''Vagrantfile content is empty'')), w)
      else
        case (case vagrantfileExists e v w of
                Some err \<Rightarrow> ioutil_WriteFile e (vagrantfile e v) content w
              | None \<Rightarrow> (None, w\<lparr>printed := printed w @
                            [''Using existing Vagrantfile at '' @ VagrantfilePath v]\<rparr>)) of
          (Some err, w1) \<Rightarrow> ((None, Some err), w1)
        | (None, w1) \<Rightarrow>
           (let cmd = createCommand v [''up''] in
            case StdoutPipe_err e cmd of
              Some err \<Rightarrow> ((None, Some err), w1)
            | None \<Rightarrow>
               (case StderrPipe_err e cmd of
                  Some err \<Rightarrow> ((None, Some err), w1)
                | None \<Rightarrow>
                   (case exec_Start e cmd w1 of
                      (Some err, w2) \<Rightarrow> ((None, Some err), w2)
                    | (None, w2) \<Rightarrow> ((Some (Up_events e cmd), None), w2)))))"

text \<open>
  \<^verbatim>\<open>Destroy\<close> returns the stdout pipe of the process it started (here: its command);
  its goroutine prints the error of \<^verbatim>\<open>Wait\<close>.
\<close>

definition Destroy :: "env \<Rightarrow> Vagrant \<Rightarrow> world \<Rightarrow> (Cmd option \<times> error option) \<times> world" where
  "Destroy e v w =
     (case vagrantfileExists e v w of
        Some err \<Rightarrow> ((None, Some err), w)
      | None \<Rightarrow>
         (let cmd = createCommand v [''destroy'', ''--force''] in
          case StdoutPipe_err e cmd of
            Some err \<Rightarrow> ((None, Some err), w)
          | None \<Rightarrow>
             (case exec_Start e cmd w of
                (Some err, w1) \<Rightarrow> ((None, Some err), w1)
              | (None, w1) \<Rightarrow>
                 ((Some cmd, None),
                  (case proc_wait e cmd of
                     None \<Rightarrow> w1
                   | Some err \<Rightarrow> w1\<lparr>printed := printed w1 @
                       [''[error]: vagrant up error: '' @ Error_method err]\<rparr>)))))"


section \<open>The command executor (command.go)\<close>

text \<open>
  The struct \<^verbatim>\<open>command\<close>. A callback is a Go function value: what the model keeps
  of it is whether it is set, and each invocation is recorded in \<open>fired\<close>. The same
  holds for the logger. \<^verbatim>\<open>cmd.cmd\<close> is nil until \<^verbatim>\<open>init\<close> has run.
\<close>

record command =
  cmd_log :: bool
  cwd :: string
  onSuccess :: bool
  onFailure :: bool
  cmd :: "Cmd option"

definition newCommand :: "string \<Rightarrow> bool \<Rightarrow> command" where
  "newCommand dir logger =
     \<lparr>cmd_log = logger, cwd = dir, onSuccess = False, onFailure = False, cmd = None\<rparr>"

definition debugf :: "command \<Rightarrow> debug_entry \<Rightarrow> world \<Rightarrow> world" where
  "debugf c entry w = (if cmd_log c then w\<lparr>debugged := debugged w @ [entry]\<rparr> else w)"

text \<open>\<^verbatim>\<open>cmd.cmd.Args\<close>; every caller has run \<^verbatim>\<open>init\<close> before.\<close>

definition cmd_Args :: "command \<Rightarrow> string list" where
  "cmd_Args c = (case cmd c of Some k \<Rightarrow> Args k | None \<Rightarrow> [])"

definition init :: "command \<Rightarrow> string list \<Rightarrow> world \<Rightarrow> command \<times> world" where
  "init c args w =
     (let c' = c\<lparr>cmd := Some \<lparr>Args = ''vagrant'' # args, Dir = cwd c\<rparr>\<rparr> in
      (c', debugf c' (Executing (cwd c') (cmd_Args c')) w))"

text \<open>\<^verbatim>\<open>done\<close> (the name is a keyword here).\<close>

definition done_cmd :: "command \<Rightarrow> error option \<Rightarrow> world \<Rightarrow> error option \<times> world" where
  "done_cmd c err w =
     (case err of
        None \<Rightarrow> (None, if onSuccess c then w\<lparr>fired := fired w @ [OnSuccess]\<rparr> else w)
      | Some er \<Rightarrow>
          (let w1 = debugf c (Failed (cmd_Args c) er) w in
           (Some er, if onFailure c then w1\<lparr>fired := fired w1 @ [OnFailure er]\<rparr> else w1)))"

definition run :: "env \<Rightarrow> command \<Rightarrow> string list \<Rightarrow> world \<Rightarrow> (string \<times> error option) \<times> command \<times> world" where
  "run e c args w =
     (case init c args w of (c1, w1) \<Rightarrow>
        (case exec_CombinedOutput e \<lparr>Args = ''vagrant'' # args, Dir = cwd c\<rparr> w1 of
           ((out, Some err), w2) \<Rightarrow>
             (let err' = (if length out \<noteq> 0
                          then ErrorString (Error_method err @ '': '' @ out) else err) in
              case done_cmd c1 (Some err') w2 of (r, w3) \<Rightarrow> (('''', r), c1, w3))
         | ((out, None), w2) \<Rightarrow>
             (let w3 = debugf c1 (Successful (cmd_Args c1) out) w2 in
              case done_cmd c1 None w3 of (r, w4) \<Rightarrow> ((out, r), c1, w4))))"

text \<open>
  A sample environment and world, for evaluating the definitions: a user with a home
  directory, paths joined with a slash, every system call succeeding, a process that
  writes nothing and exits with status 0.
\<close>

definition sample_env :: env where
  "sample_env =
     \<lparr>user_Current = (''/home/u'', None),
      filepath_Join = (\<lambda>parts. foldr (\<lambda>a b. if b = [] then a else a @ ''/'' @ b) parts []),
      strings_TrimSpace = (\<lambda>s. s),
      csv_ReadAll = (\<lambda>s. ([], None)),
      BoxSubcommand_String = (\<lambda>b. ''List''),
      MkdirAll_err = (\<lambda>p. None),
      Stat_err = (\<lambda>p. None),
      WriteFile_fail = (\<lambda>p. None),
      StdoutPipe_err = (\<lambda>k. None),
      StderrPipe_err = (\<lambda>k. None),
      Start_err = (\<lambda>k. None),
      proc_combined = (\<lambda>k. ''''),
      proc_wait = (\<lambda>k. None),
      scan_multi = (\<lambda>k. ([], None)),
      scan_stdout = (\<lambda>k. ([], None)),
      scan_stderr = (\<lambda>k. ([], None))\<rparr>"

definition empty_world :: world where
  "empty_world =
     \<lparr>files = Map.empty, dirs = {}, spawned = [], printed = [], debugged = [], fired = []\<rparr>"

definition sample_Vagrant :: Vagrant where
  "sample_Vagrant = \<lparr>VagrantfilePath = ''/home/u/.koding-boxes/box''\<rparr>"


section \<open>The stream multiplexer (command.start)\<close>

text \<open>
  \<^verbatim>\<open>start\<close> leaves three goroutines behind: \<^verbatim>\<open>output(stdoutPipe)\<close>,
  \<^verbatim>\<open>output(stderrPipe)\<close> and the one that waits. They share the wait group \<^verbatim>\<open>wg\<close>
  and the unbuffered channel \<^verbatim>\<open>out\<close>. The model is an interleaving of their steps:
  each goroutine has a program counter, one step runs one statement, and a schedule is
  the list of who steps next. A step of a goroutine that is blocked leaves the state as
  it is.

  Program counters of \<^verbatim>\<open>output\<close>: before \<^verbatim>\<open>wg.Add(1)\<close>; at \<^verbatim>\<open>scanner.Scan()\<close>; at
  the send of a line event; at the send of the scanner's error; at \<^verbatim>\<open>wg.Done()\<close>;
  returned.
\<close>

datatype stream = Stdout | Stderr

datatype output_pc = R_Add | R_Scan | R_SendLine string | R_SendErr error | R_Done | R_End

text \<open>
  Program counters of the waiting goroutine: at \<^verbatim>\<open>wg.Wait()\<close>; at \<^verbatim>\<open>cmd.cmd.Wait()\<close>;
  at the send of its error; at \<^verbatim>\<open>close(out)\<close>; at \<^verbatim>\<open>cmd.done(err)\<close>; returned.
  The last three carry the local variable \<^verbatim>\<open>err\<close>.
\<close>

datatype waiter_pc =
  W_WgWait | W_CmdWait | W_SendErr error | W_Close "error option" | W_Done "error option" | W_End

text \<open>
  An \<^verbatim>\<open>output\<close> goroutine: its program counter, and what its scanner has still to
  yield: the lines not yet scanned and the scanner's error after them.
\<close>

record output_state =
  pc :: output_pc
  pending :: "string list"
  scan_err :: "error option"

text \<open>Who sent an event: kept beside each event received, for stating properties.\<close>

datatype sender = ByOutput stream | ByWaiter

text \<open>
  The shared state. \<open>received\<close> is what the consumer has received from \<^verbatim>\<open>out\<close>, in
  order; \<open>draining\<close> says that the consumer is still receiving; \<open>exited\<close> that the
  process has exited; \<open>waited\<close> that \<^verbatim>\<open>cmd.cmd.Wait()\<close> has returned (it closes the
  read ends of both pipes); \<open>wait_err\<close> is the error that \<^verbatim>\<open>Wait\<close> returns;
  \<open>panicked\<close> that a goroutine has panicked, which ends the program.
\<close>

record gstate =
  owner :: command
  wg :: int
  outputs :: "stream \<Rightarrow> output_state"
  waiter :: waiter_pc
  wait_err :: "error option"
  exited :: bool
  waited :: bool
  received :: "(sender \<times> CommandOutput) list"
  closed :: bool
  draining :: bool
  panicked :: bool
  wld :: world

text \<open>
  A send on the unbuffered channel: it panics on a closed channel, completes when the
  consumer receives, and blocks (\<open>None\<close>) otherwise.
\<close>

definition send :: "sender \<Rightarrow> CommandOutput \<Rightarrow> gstate \<Rightarrow> gstate option" where
  "send who ev g =
     (if closed g then Some (g\<lparr>panicked := True\<rparr>)
      else if draining g then Some (g\<lparr>received := received g @ [(who, ev)]\<rparr>)
      else None)"

definition set_pc :: "stream \<Rightarrow> output_pc \<Rightarrow> gstate \<Rightarrow> gstate" where
  "set_pc i p g = g\<lparr>outputs := (outputs g)(i := (outputs g i)\<lparr>pc := p\<rparr>)\<rparr>"

text \<open>One step of \<^verbatim>\<open>output(r)\<close>, lines 85 to 98 of command.go.\<close>

definition output_step :: "stream \<Rightarrow> gstate \<Rightarrow> gstate" where
  "output_step i g =
     (case pc (outputs g i) of
        R_Add \<Rightarrow> set_pc i R_Scan (g\<lparr>wg := wg g + 1\<rparr>)
      | R_Scan \<Rightarrow>
          (case pending (outputs g i) of
             text # rest \<Rightarrow>
               g\<lparr>outputs := (outputs g)(i := (outputs g i)\<lparr>pc := R_SendLine text, pending := rest\<rparr>),
                 wld := debugf (owner g) (Scanned text) (wld g)\<rparr>
           | [] \<Rightarrow>
               (case scan_err (outputs g i) of
                  Some err \<Rightarrow> set_pc i (R_SendErr err) g
                | None \<Rightarrow> set_pc i R_Done g))
      | R_SendLine text \<Rightarrow>
          (case send (ByOutput i) \<lparr>Line = text, Error = None\<rparr> g of
             None \<Rightarrow> g
           | Some g' \<Rightarrow> if panicked g' then g' else set_pc i R_Scan g')
      | R_SendErr err \<Rightarrow>
          (case send (ByOutput i) \<lparr>Line = '''', Error = Some err\<rparr> g of
             None \<Rightarrow> g
           | Some g' \<Rightarrow> if panicked g' then g' else set_pc i R_Done g')
      | R_Done \<Rightarrow>
          (if wg g - 1 < 0 then g\<lparr>panicked := True\<rparr>
           else set_pc i R_End (g\<lparr>wg := wg g - 1\<rparr>))
      | R_End \<Rightarrow> g)"

text \<open>
  A read of a scanner that fails because \<^verbatim>\<open>Wait\<close> has closed the pipe: possible at
  \<^verbatim>\<open>scanner.Scan()\<close> once \<^verbatim>\<open>Wait\<close> has returned. (The scanner may also still yield
  lines it has buffered: that is the ordinary step.)
\<close>

definition os_ErrClosed :: error where
  "os_ErrClosed = SysError ''read |0: file already closed''"

definition closed_pipe_step :: "stream \<Rightarrow> gstate \<Rightarrow> gstate" where
  "closed_pipe_step i g =
     (if waited g \<and> pc (outputs g i) = R_Scan then set_pc i (R_SendErr os_ErrClosed) g else g)"

text \<open>One step of the waiting goroutine, lines 103 to 112 of command.go.\<close>

definition waiter_step :: "gstate \<Rightarrow> gstate" where
  "waiter_step g =
     (case waiter g of
        W_WgWait \<Rightarrow> if wg g = 0 then g\<lparr>waiter := W_CmdWait\<rparr> else g
      | W_CmdWait \<Rightarrow>
          if exited g
          then g\<lparr>waited := True,
                 waiter := (case wait_err g of Some err \<Rightarrow> W_SendErr err | None \<Rightarrow> W_Close None)\<rparr>
          else g
      | W_SendErr err \<Rightarrow>
          (case send ByWaiter \<lparr>Line = '''', Error = Some err\<rparr> g of
             None \<Rightarrow> g
           | Some g' \<Rightarrow> if panicked g' then g' else g'\<lparr>waiter := W_Close (Some err)\<rparr>)
      | W_Close err \<Rightarrow>
          if closed g then g\<lparr>panicked := True\<rparr> else g\<lparr>closed := True, waiter := W_Done err\<rparr>
      | W_Done err \<Rightarrow> g\<lparr>wld := snd (done_cmd (owner g) err (wld g)), waiter := W_End\<rparr>
      | W_End \<Rightarrow> g)"

text \<open>
  Who steps next: a goroutine, or the world around them: the process exits, the
  consumer stops receiving. After a panic nothing runs.
\<close>

datatype actor = Output stream | ClosedPipe stream | Waiter | ProcessExit | ConsumerLeaves

definition step :: "actor \<Rightarrow> gstate \<Rightarrow> gstate" where
  "step a g =
     (if panicked g then g
      else case a of
             Output i \<Rightarrow> output_step i g
           | ClosedPipe i \<Rightarrow> closed_pipe_step i g
           | Waiter \<Rightarrow> waiter_step g
           | ProcessExit \<Rightarrow> g\<lparr>exited := True\<rparr>
           | ConsumerLeaves \<Rightarrow> g\<lparr>draining := False\<rparr>)"

primrec goroutines :: "actor list \<Rightarrow> gstate \<Rightarrow> gstate" where
  "goroutines [] g = g"
| "goroutines (a # as) g = goroutines as (step a g)"

text \<open>The state in which \<^verbatim>\<open>start\<close> leaves the three goroutines.\<close>

definition started :: "env \<Rightarrow> command \<Rightarrow> Cmd \<Rightarrow> world \<Rightarrow> gstate" where
  "started e c k w =
     \<lparr>owner = c, wg = 0,
      outputs = (\<lambda>i. case i of
          Stdout \<Rightarrow> \<lparr>pc = R_Add, pending = fst (scan_stdout e k), scan_err = snd (scan_stdout e k)\<rparr>
        | Stderr \<Rightarrow> \<lparr>pc = R_Add, pending = fst (scan_stderr e k), scan_err = snd (scan_stderr e k)\<rparr>),
      waiter = W_WgWait, wait_err = proc_wait e k, exited = False, waited = False,
      received = [], closed = False, draining = True, panicked = False, wld = w\<rparr>"

text \<open>
  \<^verbatim>\<open>start\<close>: the channel it returns is the state of the goroutines behind it.
\<close>

definition start :: "env \<Rightarrow> command \<Rightarrow> string list \<Rightarrow> world \<Rightarrow> (gstate option \<times> error option) \<times> command \<times> world" where
  "start e c args w =
     (case init c args w of (c1, w1) \<Rightarrow>
        (let k = \<lparr>Args = ''vagrant'' # args, Dir = cwd c\<rparr> in
         case StdoutPipe_err e k of
           Some err \<Rightarrow> (case done_cmd c1 (Some err) w1 of (r, w2) \<Rightarrow> ((None, r), c1, w2))
         | None \<Rightarrow>
            (case StderrPipe_err e k of
               Some err \<Rightarrow> (case done_cmd c1 (Some err) w1 of (r, w2) \<Rightarrow> ((None, r), c1, w2))
             | None \<Rightarrow>
                (case exec_Start e k w1 of
                   (Some err, w2) \<Rightarrow>
                     (case done_cmd c1 (Some err) w2 of (r, w3) \<Rightarrow> ((None, r), c1, w3))
                 | (None, w2) \<Rightarrow> ((Some (started e c1 k w2), None), c1, w2)))))"

text \<open>The events of one sender, the line events' texts, and the error events.\<close>

definition events_of :: "sender \<Rightarrow> gstate \<Rightarrow> CommandOutput list" where
  "events_of who g = map snd (filter (\<lambda>x. fst x = who) (received g))"

definition texts :: "CommandOutput list \<Rightarrow> string list" where
  "texts evs = map Line (filter (\<lambda>ev. Error ev = None) evs)"

definition errors :: "CommandOutput list \<Rightarrow> CommandOutput list" where
  "errors evs = filter (\<lambda>ev. Error ev \<noteq> None) evs"

definition line_event :: "string \<Rightarrow> CommandOutput" where
  "line_event text = \<lparr>Line = text, Error = None\<rparr>"

definition error_event :: "error \<Rightarrow> CommandOutput" where
  "error_event err = \<lparr>Line = '''', Error = Some err\<rparr>"

text \<open>The callbacks that \<^verbatim>\<open>done\<close> invokes for an error value.\<close>

definition callbacks_for :: "command \<Rightarrow> error option \<Rightarrow> callback list" where
  "callbacks_for c err =
     (case err of
        None \<Rightarrow> if onSuccess c then [OnSuccess] else []
      | Some er \<Rightarrow> if onFailure c then [OnFailure er] else [])"


section \<open>Invariants of the goroutines\<close>

text \<open>
  What holds at each program counter of the waiting goroutine; \<open>f0\<close> is the list of
  callbacks invoked before \<^verbatim>\<open>start\<close> returned.
\<close>

definition waiter_inv :: "callback list \<Rightarrow> gstate \<Rightarrow> bool" where
  "waiter_inv f0 g =
     (case waiter g of
        W_WgWait \<Rightarrow> fired (wld g) = f0 \<and> \<not> closed g \<and> \<not> waited g \<and> events_of ByWaiter g = []
      | W_CmdWait \<Rightarrow> fired (wld g) = f0 \<and> \<not> closed g \<and> \<not> waited g \<and> events_of ByWaiter g = []
      | W_SendErr err \<Rightarrow>
          fired (wld g) = f0 \<and> \<not> closed g \<and> waited g \<and> wait_err g = Some err
          \<and> events_of ByWaiter g = []
      | W_Close err \<Rightarrow>
          fired (wld g) = f0 \<and> \<not> closed g \<and> waited g \<and> wait_err g = err
          \<and> events_of ByWaiter g = map error_event (case err of None \<Rightarrow> [] | Some x \<Rightarrow> [x])
      | W_Done err \<Rightarrow>
          fired (wld g) = f0 \<and> closed g \<and> waited g \<and> wait_err g = err
          \<and> events_of ByWaiter g = map error_event (case err of None \<Rightarrow> [] | Some x \<Rightarrow> [x])
      | W_End \<Rightarrow>
          fired (wld g) = f0 @ callbacks_for (owner g) (wait_err g) \<and> closed g \<and> waited g
          \<and> events_of ByWaiter g
              = map error_event (case wait_err g of None \<Rightarrow> [] | Some x \<Rightarrow> [x]))"

text \<open>
  What holds at each program counter of \<^verbatim>\<open>output\<close> for the stream \<open>i\<close> whose scanner
  had the lines \<open>ls\<close> to yield: the events it has sent are line events for an initial
  part of \<open>ls\<close>, in order, then at most one error event.
\<close>

definition output_inv :: "string list \<Rightarrow> stream \<Rightarrow> gstate \<Rightarrow> bool" where
  "output_inv ls i g =
     (let evs = events_of (ByOutput i) g; rest = pending (outputs g i) in
      map line_event (texts evs) @ errors evs = evs \<and>
      (case pc (outputs g i) of
         R_Add \<Rightarrow> errors evs = [] \<and> texts evs @ rest = ls
       | R_Scan \<Rightarrow> errors evs = [] \<and> texts evs @ rest = ls
       | R_SendLine text \<Rightarrow> errors evs = [] \<and> texts evs @ text # rest = ls
       | R_SendErr err \<Rightarrow> errors evs = [] \<and> texts evs @ rest = ls
       | R_Done \<Rightarrow> length (errors evs) \<le> 1 \<and> texts evs @ rest = ls
                   \<and> (errors evs = [] \<longrightarrow> rest = [])
       | R_End \<Rightarrow> length (errors evs) \<le> 1 \<and> texts evs @ rest = ls
                  \<and> (errors evs = [] \<longrightarrow> rest = [])))"

text \<open>
  The schedules in which both \<^verbatim>\<open>output\<close> goroutines have run \<^verbatim>\<open>wg.Add(1)\<close> before
  the waiting goroutine has run \<^verbatim>\<open>wg.Wait()\<close>: there the counter is the number of
  \<^verbatim>\<open>output\<close> goroutines that have not yet run \<^verbatim>\<open>wg.Done()\<close>, and the waiting
  goroutine is past \<^verbatim>\<open>wg.Wait()\<close> only when both have returned.
\<close>

definition running :: "output_state \<Rightarrow> int" where
  "running r = (if pc r = R_End then 0 else 1)"

definition added_inv :: "gstate \<Rightarrow> bool" where
  "added_inv g =
     (pc (outputs g Stdout) \<noteq> R_Add \<and> pc (outputs g Stderr) \<noteq> R_Add
      \<and> wg g = running (outputs g Stdout) + running (outputs g Stderr)
      \<and> (waiter g \<noteq> W_WgWait \<longrightarrow>
           pc (outputs g Stdout) = R_End \<and> pc (outputs g Stderr) = R_End))"

text \<open>Sample runs: a process that writes one line, a process that fails, a command
  with both callbacks set, a scanner that fails on stdout while stderr has a line.\<close>

definition hello_env :: env where
  "hello_env = sample_env\<lparr>scan_stdout := \<lambda>k. ([''hello''], None)\<rparr>"





section \<open>Properties of the parser\<close>

lemma parseData_loop_last:
  "parseData_loop records typeName data =
     (if matching_rows records typeName = [] then data
      else last (matching_rows records typeName) ! 3)"
  by (induction records arbitrary: data) (auto simp: matching_rows_def)

text \<open>
  C3. For every record table and field name, \<^verbatim>\<open>parseData\<close> scans every row; only rows
  with at least 4 fields take part (shorter rows are skipped whatever they hold); a row
  matches when its field 2 equals the name, a later match overwrites an earlier one and
  field 3 is the value; the error is returned exactly when no row matched or the last
  matched value is the empty string.
\<close>

theorem parseData_last_match:
  "parseData records typeName =
     (case parseField_spec records typeName of
        None \<Rightarrow> ('''', Some (ErrorString
              (''couldn'' @ [CHR 0x27] @ ''t parse data for vagrant type: '' @ [CHR 0x27]
                 @ typeName @ [CHR 0x27])))
      | Some v \<Rightarrow> (v, None))
   \<and> parseData (filter (\<lambda>row. 4 \<le> length row) records) typeName = parseData records typeName
   \<and> (snd (parseData records typeName) = None) =
       (matching_rows records typeName \<noteq> [] \<and> last (matching_rows records typeName) ! 3 \<noteq> '''')"
proof -
  have short: "matching_rows (filter (\<lambda>row. 4 \<le> length row) records) typeName
      = matching_rows records typeName"
    by (induction records) (auto simp: matching_rows_def)
  show ?thesis
    by (auto simp: parseData_def parseField_spec_def parseData_loop_last short Let_def)
qed

subsection \<open>Status translation\<close>

text \<open>
  C4. \<^verbatim>\<open>toStatus\<close> maps exactly the four strings "running", "not_created", "saved"
  and "poweroff" to their status values, and for every other string it returns an error
  that carries the string (with the status \<open>Unknown\<close> beside it, never \<open>Unknown\<close>
  without an error).
\<close>

theorem toStatus_fails_closed:
  "toStatus ''running'' = (Running, None)
   \<and> toStatus ''not_created'' = (NotCreated, None)
   \<and> toStatus ''saved'' = (Saved, None)
   \<and> toStatus ''poweroff'' = (PowerOff, None)
   \<and> (state \<notin> {''running'', ''not_created'', ''saved'', ''poweroff''} \<longrightarrow>
        toStatus state = (Unknown, Some (ErrorString (''Unknown state: '' @ state))))"
  by (simp add: toStatus_def)

theorem toStatus_fails_closed_witness:
  "''aborted'' \<notin> {''running'', ''not_created'', ''saved'', ''poweroff''}
   \<and> toStatus ''aborted'' = (Unknown, Some (ErrorString ''Unknown state: aborted''))"
  using toStatus_fails_closed [of "''aborted''"] by simp

section \<open>Properties of the session\<close>

text \<open>
  C9. For the empty name, when the current user can be determined, \<^verbatim>\<open>NewVagrant\<close>
  returns a nil session together with a nil error (and creates no directory): the
  variable \<^verbatim>\<open>err\<close> it returns is the nil error of \<^verbatim>\<open>user.Current()\<close>.
\<close>

theorem NewVagrant_empty_name:
  "snd (user_Current e) = None \<Longrightarrow> NewVagrant e '''' w = ((None, None), w)"
  by (auto simp: NewVagrant_def split: prod.splits)

theorem NewVagrant_empty_name_witness:
  "snd (user_Current sample_env) = None
   \<and> NewVagrant sample_env '''' empty_world = ((None, None), empty_world)"
  using NewVagrant_empty_name [of sample_env empty_world] by (simp add: sample_env_def)

text \<open>
  C10. For empty Vagrantfile content, \<^verbatim>\<open>Up\<close> returns a non-nil error at once: no
  file is written, no subprocess is started, the world is as it was.
\<close>

theorem Up_empty_content:
  "Up e v '''' w = ((None, Some (ErrorString ''Vagrantfile content is empty'')), w)
   \<and> snd (fst (Up e v '''' w)) \<noteq> None
   \<and> files (snd (Up e v '''' w)) = files w
   \<and> spawned (snd (Up e v '''' w)) = spawned w"
  by (simp add: Up_def)

text \<open>A Vagrantfile that is on disk is never reported missing, and only \<^verbatim>\<open>WriteFile\<close>
  changes a file.\<close>

lemma vagrantfileExists_present:
  "vagrantfile e v \<in> dom (files w) \<Longrightarrow> vagrantfileExists e v w = None"
  by (auto simp: vagrantfileExists_def os_Stat_def Let_def split: option.splits)

lemma exec_Start_files: "files (snd (exec_Start e k w)) = files w"
  by (simp add: exec_Start_def split: option.splits)

lemma ioutil_WriteFile_files:
  "p \<noteq> path \<Longrightarrow> files (snd (ioutil_WriteFile e path data w)) p = files w p"
  by (simp add: ioutil_WriteFile_def split: option.splits prod.splits)

text \<open>
  C7. For every call of \<^verbatim>\<open>Up\<close> on a session whose working directory holds a
  Vagrantfile, no file is changed by the call (so the Vagrantfile keeps its content);
  and whenever the call changes the files at all, the Vagrantfile was absent and it is
  the only file changed.
\<close>

theorem Up_keeps_existing_Vagrantfile:
  "(vagrantfile e v \<in> dom (files w) \<longrightarrow> files (snd (Up e v content w)) = files w)
   \<and> (files (snd (Up e v content w)) \<noteq> files w \<longrightarrow>
        vagrantfile e v \<notin> dom (files w) \<and> content \<noteq> ''''
        \<and> (\<forall>p. p \<noteq> vagrantfile e v \<longrightarrow> files (snd (Up e v content w)) p = files w p))"
proof -
  have keep: "files (snd (Up e v content w)) = files w" if "vagrantfile e v \<in> dom (files w)"
    using that
    by (simp add: Up_def vagrantfileExists_present Let_def exec_Start_def
        split: option.splits prod.splits)
  have other: "files (snd (Up e v content w)) p = files w p" if "p \<noteq> vagrantfile e v" for p
    using that ioutil_WriteFile_files [of p "vagrantfile e v" e content w]
    by (auto simp: Up_def Let_def exec_Start_def split: option.splits prod.splits if_splits)
  have empty: "files (snd (Up e v '''' w)) = files w"
    by (simp add: Up_def)
  show ?thesis
    using keep other empty by blast
qed

text \<open>With the file on disk its content stays; without it the content is written.\<close>

theorem Up_keeps_existing_Vagrantfile_witness:
  "vagrantfile sample_env sample_Vagrant
     \<in> dom (files (empty_world\<lparr>files := [''/home/u/.koding-boxes/box/Vagrantfile'' \<mapsto> ''old'']\<rparr>))
   \<and> files (snd (Up sample_env sample_Vagrant ''new''
        (empty_world\<lparr>files := [''/home/u/.koding-boxes/box/Vagrantfile'' \<mapsto> ''old'']\<rparr>)))
      = [''/home/u/.koding-boxes/box/Vagrantfile'' \<mapsto> ''old'']
   \<and> files (snd (Up sample_env sample_Vagrant ''new'' empty_world)) \<noteq> files empty_world
   \<and> vagrantfile sample_env sample_Vagrant \<notin> dom (files empty_world)"
proof -
  have written: "files (snd (Up sample_env sample_Vagrant ''new'' empty_world))
      ''/home/u/.koding-boxes/box/Vagrantfile'' = Some ''new''"
    by (simp add: Up_def vagrantfileExists_def os_Stat_def vagrantfile_def ioutil_WriteFile_def
        createCommand_def exec_Start_def sample_env_def sample_Vagrant_def empty_world_def Let_def)
  have absent: "files empty_world ''/home/u/.koding-boxes/box/Vagrantfile'' = None"
    by (simp add: empty_world_def)
  have changed: "files (snd (Up sample_env sample_Vagrant ''new'' empty_world)) \<noteq> files empty_world"
    using written absent by (metis option.distinct(1))
  show ?thesis
    using changed Up_keeps_existing_Vagrantfile [of sample_env sample_Vagrant
      "empty_world\<lparr>files := [''/home/u/.koding-boxes/box/Vagrantfile'' \<mapsto> ''old'']\<rparr>" "''new''"]
      Up_keeps_existing_Vagrantfile [of sample_env sample_Vagrant empty_world "''new''"]
    by (simp add: vagrantfile_def sample_env_def sample_Vagrant_def empty_world_def)
qed

text \<open>
  \<^verbatim>\<open>Box\<close> does not look for the Vagrantfile: in a working directory without one it
  starts \<^verbatim>\<open>vagrant box ... --machine-readable\<close> and returns no error.
\<close>

theorem Box_spawns_without_Vagrantfile:
  "vagrantfile sample_env sample_Vagrant \<notin> dom (files empty_world) \<union> dirs empty_world
   \<and> fst (Box sample_env sample_Vagrant List empty_world) = ('''', None)
   \<and> spawned (snd (Box sample_env sample_Vagrant List empty_world))
       = [\<lparr>Args = [''vagrant'', ''box'', ''List'', ''--machine-readable''],
           Dir = ''/home/u/.koding-boxes/box''\<rparr>]"
  by (simp add: Box_def runCommand_def exec_CombinedOutput_def exec_Start_def
      sample_env_def sample_Vagrant_def empty_world_def)

text \<open>What \<^verbatim>\<open>vagrantfileExists\<close> returns for a missing file, and what \<^verbatim>\<open>runCommand\<close>
  starts.\<close>

lemma vagrantfileExists_absent:
  "vagrantfile e v \<notin> dom (files w) \<union> dirs w \<Longrightarrow> Stat_err e (vagrantfile e v) = None \<Longrightarrow>
   vagrantfileExists e v w = Some (NotExistError (vagrantfile e v))"
  by (auto simp: vagrantfileExists_def os_Stat_def Let_def)

lemma runCommand_spawns:
  "Start_err e \<lparr>Args = ''vagrant'' # args @ [''--machine-readable''], Dir = VagrantfilePath v\<rparr> = None \<Longrightarrow>
   spawned (snd (runCommand e v args w))
     = spawned w @ [\<lparr>Args = ''vagrant'' # args @ [''--machine-readable''], Dir = VagrantfilePath v\<rparr>]"
  by (simp add: runCommand_def exec_CombinedOutput_def exec_Start_def Let_def
      split: option.splits prod.splits)

text \<open>
  C5, as the code has it. \<^verbatim>\<open>Status\<close> and \<^verbatim>\<open>Destroy\<close> require the Vagrantfile: when
  it is absent they return the not-exist error of \<^verbatim>\<open>os.Stat\<close> and leave the world as
  it was, so no subprocess is started. \<^verbatim>\<open>Box\<close> and \<^verbatim>\<open>Version\<close> do not check: they
  start their subprocess whatever the files are. \<^verbatim>\<open>Up\<close> does not require the file
  either: when it is absent (and the content is not empty) \<^verbatim>\<open>Up\<close> writes it.
\<close>

theorem Status_Destroy_require_Vagrantfile:
  "(vagrantfile e v \<notin> dom (files w) \<union> dirs w \<and> Stat_err e (vagrantfile e v) = None \<longrightarrow>
      Status e v w = ((Unknown, Some (NotExistError (vagrantfile e v))), w)
      \<and> Destroy e v w = ((None, Some (NotExistError (vagrantfile e v))), w))
   \<and> (Start_err e \<lparr>Args = [''vagrant'', ''box'', BoxSubcommand_String e sub, ''--machine-readable''],
                     Dir = VagrantfilePath v\<rparr> = None \<longrightarrow>
        spawned (snd (Box e v sub w))
          = spawned w @ [\<lparr>Args = [''vagrant'', ''box'', BoxSubcommand_String e sub, ''--machine-readable''],
                           Dir = VagrantfilePath v\<rparr>])
   \<and> (Start_err e \<lparr>Args = [''vagrant'', ''version'', ''--machine-readable''],
                     Dir = VagrantfilePath v\<rparr> = None \<longrightarrow>
        spawned (snd (Version e v w))
          = spawned w @ [\<lparr>Args = [''vagrant'', ''version'', ''--machine-readable''],
                           Dir = VagrantfilePath v\<rparr>])
   \<and> (vagrantfile e v \<notin> dom (files w) \<union> dirs w \<and> Stat_err e (vagrantfile e v) = None
        \<and> content \<noteq> '''' \<and> WriteFile_fail e (vagrantfile e v) = None \<longrightarrow>
        files (snd (Up e v content w)) (vagrantfile e v) = Some content)"
proof -
  have box: "spawned (snd (Box e v sub w)) = spawned (snd (runCommand e v [''box'', BoxSubcommand_String e sub] w))"
    by (simp add: Box_def split: prod.splits option.splits)
  have version: "spawned (snd (Version e v w)) = spawned (snd (runCommand e v [''version''] w))"
    by (simp add: Version_def split: prod.splits option.splits)
  have up: "files (snd (Up e v content w)) (vagrantfile e v) = Some content"
    if "vagrantfile e v \<notin> dom (files w) \<union> dirs w" "Stat_err e (vagrantfile e v) = None"
       "content \<noteq> ''''" "WriteFile_fail e (vagrantfile e v) = None"
    using that vagrantfileExists_absent [of e v w]
    by (simp add: Up_def ioutil_WriteFile_def Let_def exec_Start_def
        split: option.splits prod.splits)
  show ?thesis
    using box version up runCommand_spawns [of e "[''box'', BoxSubcommand_String e sub]" v w]
      runCommand_spawns [of e "[''version'']" v w] vagrantfileExists_absent [of e v w]
    by (simp add: Status_def Destroy_def)
qed

theorem Status_Destroy_require_Vagrantfile_witness:
  "vagrantfile sample_env sample_Vagrant \<notin> dom (files empty_world) \<union> dirs empty_world
   \<and> Stat_err sample_env (vagrantfile sample_env sample_Vagrant) = None
   \<and> Status sample_env sample_Vagrant empty_world
       = ((Unknown, Some (NotExistError ''/home/u/.koding-boxes/box/Vagrantfile'')), empty_world)
   \<and> Destroy sample_env sample_Vagrant empty_world
       = ((None, Some (NotExistError ''/home/u/.koding-boxes/box/Vagrantfile'')), empty_world)
   \<and> spawned (snd (Version sample_env sample_Vagrant empty_world))
       = [\<lparr>Args = [''vagrant'', ''version'', ''--machine-readable''],
           Dir = ''/home/u/.koding-boxes/box''\<rparr>]
   \<and> files (snd (Up sample_env sample_Vagrant ''new'' empty_world))
        ''/home/u/.koding-boxes/box/Vagrantfile'' = Some ''new''"
  using Status_Destroy_require_Vagrantfile [of sample_env sample_Vagrant empty_world List "''new''"]
  by (simp add: vagrantfile_def sample_env_def sample_Vagrant_def empty_world_def)

section \<open>Properties of the command executor\<close>

text \<open>
  The session's own helper \<^verbatim>\<open>runCommand\<close> of vagrant.go passes the error of a failed
  process on as it is, and has no callbacks.
\<close>

lemma runCommand_failure:
  "Start_err e \<lparr>Args = ''vagrant'' # args @ [''--machine-readable''], Dir = VagrantfilePath v\<rparr> = None \<Longrightarrow>
   proc_wait e \<lparr>Args = ''vagrant'' # args @ [''--machine-readable''], Dir = VagrantfilePath v\<rparr> = Some err \<Longrightarrow>
   fst (runCommand e v args w) = ('''', Some err)
   \<and> fired (snd (runCommand e v args w)) = fired w"
  by (simp add: runCommand_def exec_CombinedOutput_def exec_Start_def Let_def)

text \<open>
  C8. For every synchronous invocation (\<^verbatim>\<open>run\<close>) whose process was started and exits
  non-zero: the returned output string is empty; the returned error wraps the combined
  output (its message is the message of the exit error, then a colon and the output; with
  no output at all it is the exit error itself), so the message ends with the raw output;
  and the failure callback, when one is set, has fired exactly once with that error (and
  the success callback has not) by the time the call returns.
\<close>

theorem run_failure_wraps_output:
  "Start_err e \<lparr>Args = ''vagrant'' # args, Dir = cwd c\<rparr> = None \<Longrightarrow>
   proc_wait e \<lparr>Args = ''vagrant'' # args, Dir = cwd c\<rparr> = Some err \<Longrightarrow>
   out = proc_combined e \<lparr>Args = ''vagrant'' # args, Dir = cwd c\<rparr> \<Longrightarrow>
   err' = (if out = '''' then err else ErrorString (Error_method err @ '': '' @ out)) \<Longrightarrow>
   fst (run e c args w) = ('''', Some err')
   \<and> (\<exists>pre. Error_method err' = pre @ out)
   \<and> fired (snd (snd (run e c args w)))
       = fired w @ (if onFailure c then [OnFailure err'] else [])
   \<and> spawned (snd (snd (run e c args w)))
       = spawned w @ [\<lparr>Args = ''vagrant'' # args, Dir = cwd c\<rparr>]"
  by (simp add: run_def init_def exec_CombinedOutput_def exec_Start_def done_cmd_def
      debugf_def Let_def)

theorem run_failure_wraps_output_witness:
  "Start_err (sample_env\<lparr>proc_combined := \<lambda>k. ''boom'',
       proc_wait := \<lambda>k. Some (SysError ''exit status 1'')\<rparr>)
     \<lparr>Args = ''vagrant'' # [''status''], Dir = cwd ((newCommand ''/box'' False)\<lparr>onFailure := True\<rparr>)\<rparr> = None
   \<and> fst (run (sample_env\<lparr>proc_combined := \<lambda>k. ''boom'',
                  proc_wait := \<lambda>k. Some (SysError ''exit status 1'')\<rparr>)
            ((newCommand ''/box'' False)\<lparr>onFailure := True\<rparr>) [''status''] empty_world)
       = ('''', Some (ErrorString ''exit status 1: boom''))
   \<and> fired (snd (snd (run (sample_env\<lparr>proc_combined := \<lambda>k. ''boom'',
                  proc_wait := \<lambda>k. Some (SysError ''exit status 1'')\<rparr>)
            ((newCommand ''/box'' False)\<lparr>onFailure := True\<rparr>) [''status''] empty_world)))
       = [OnFailure (ErrorString ''exit status 1: boom'')]"
  using run_failure_wraps_output [of
      "sample_env\<lparr>proc_combined := \<lambda>k. ''boom'', proc_wait := \<lambda>k. Some (SysError ''exit status 1'')\<rparr>"
      "[''status'']" "(newCommand ''/box'' False)\<lparr>onFailure := True\<rparr>"
      "SysError ''exit status 1''" "''boom''" "ErrorString ''exit status 1: boom''" empty_world]
  by (simp add: sample_env_def newCommand_def empty_world_def)

section \<open>Properties of the stream multiplexer\<close>

lemmas step_defs = step_def output_step_def waiter_step_def closed_pipe_step_def send_def
  set_pc_def

lemma goroutines_append: "goroutines (xs @ ys) g = goroutines ys (goroutines xs g)"
  by (induction xs arbitrary: g) simp_all

lemma fired_debugf: "fired (debugf c entry w) = fired w"
  by (simp add: debugf_def)

lemma fired_done_cmd: "fired (snd (done_cmd c err w)) = fired w @ callbacks_for c err"
  by (simp add: done_cmd_def callbacks_for_def debugf_def Let_def split: option.splits)

lemma events_of_simps:
  "events_of who (g\<lparr>received := received g @ [(s, ev)]\<rparr>)
     = events_of who g @ (if s = who then [ev] else [])"
  by (simp add: events_of_def)

lemma events_of_fields:
  "events_of who (g\<lparr>outputs := os\<rparr>) = events_of who g"
  "events_of who (g\<lparr>wg := n\<rparr>) = events_of who g"
  "events_of who (g\<lparr>wld := w\<rparr>) = events_of who g"
  "events_of who (g\<lparr>panicked := b\<rparr>) = events_of who g"
  "events_of who (g\<lparr>waiter := p\<rparr>) = events_of who g"
  "events_of who (g\<lparr>waited := b\<rparr>) = events_of who g"
  "events_of who (g\<lparr>closed := b\<rparr>) = events_of who g"
  "events_of who (g\<lparr>exited := b\<rparr>) = events_of who g"
  "events_of who (g\<lparr>draining := b\<rparr>) = events_of who g"
  by (simp_all add: events_of_def)

text \<open>What a step of \<^verbatim>\<open>output\<close> leaves alone.\<close>

lemma output_step_frame:
  "owner (output_step i g) = owner g"
  "wait_err (output_step i g) = wait_err g"
  "waiter (output_step i g) = waiter g"
  "waited (output_step i g) = waited g"
  "closed (output_step i g) = closed g"
  "draining (output_step i g) = draining g"
  "exited (output_step i g) = exited g"
  "fired (wld (output_step i g)) = fired (wld g)"
  "events_of ByWaiter (output_step i g) = events_of ByWaiter g"
  by (simp_all add: output_step_def send_def set_pc_def fired_debugf events_of_fields
      events_of_simps split: output_pc.splits list.splits option.splits)

lemma closed_pipe_step_frame:
  "owner (closed_pipe_step i g) = owner g"
  "wait_err (closed_pipe_step i g) = wait_err g"
  "waiter (closed_pipe_step i g) = waiter g"
  "waited (closed_pipe_step i g) = waited g"
  "closed (closed_pipe_step i g) = closed g"
  "draining (closed_pipe_step i g) = draining g"
  "exited (closed_pipe_step i g) = exited g"
  "wg (closed_pipe_step i g) = wg g"
  "wld (closed_pipe_step i g) = wld g"
  "received (closed_pipe_step i g) = received g"
  "events_of who (closed_pipe_step i g) = events_of who g"
  by (simp_all add: closed_pipe_step_def set_pc_def events_of_fields)

lemma waiter_step_frame:
  "owner (waiter_step g) = owner g"
  "wait_err (waiter_step g) = wait_err g"
  "outputs (waiter_step g) = outputs g"
  "wg (waiter_step g) = wg g"
  "draining (waiter_step g) = draining g"
  "exited (waiter_step g) = exited g"
  "events_of (ByOutput i) (waiter_step g) = events_of (ByOutput i) g"
  by (simp_all add: waiter_step_def send_def events_of_fields events_of_simps
      split: waiter_pc.splits option.splits)





subsection \<open>The waiting goroutine\<close>

lemma waiter_inv_cong:
  "waiter g' = waiter g \<Longrightarrow> fired (wld g') = fired (wld g) \<Longrightarrow> closed g' = closed g \<Longrightarrow>
   waited g' = waited g \<Longrightarrow> wait_err g' = wait_err g \<Longrightarrow> owner g' = owner g \<Longrightarrow>
   events_of ByWaiter g' = events_of ByWaiter g \<Longrightarrow>
   waiter_inv f0 g' = waiter_inv f0 g"
  by (simp add: waiter_inv_def split: waiter_pc.splits)

lemma waiter_inv_waiter:
  assumes "waiter_inv f0 g" and "\<not> panicked g"
  shows "waiter_inv f0 (waiter_step g)"
proof (cases "waiter g")
  case W_WgWait
  with assms show ?thesis
    by (simp add: waiter_inv_def waiter_step_def events_of_fields)
next
  case W_CmdWait
  with assms show ?thesis
    by (simp add: waiter_inv_def waiter_step_def events_of_fields split: option.splits)
next
  case (W_SendErr err)
  with assms show ?thesis
    by (simp add: waiter_inv_def waiter_step_def send_def events_of_fields events_of_simps
        error_event_def)
next
  case (W_Close err)
  with assms show ?thesis
    by (simp add: waiter_inv_def waiter_step_def events_of_fields)
next
  case (W_Done err)
  with assms show ?thesis
    by (simp add: waiter_inv_def waiter_step_def events_of_fields fired_done_cmd)
next
  case W_End
  with assms show ?thesis
    by (simp add: waiter_inv_def waiter_step_def)
qed

lemma waiter_inv_step:
  assumes "waiter_inv f0 g"
  shows "waiter_inv f0 (step a g)"
proof (cases "panicked g")
  case True
  with assms show ?thesis by (simp add: step_def)
next
  case False
  show ?thesis
  proof (cases a)
    case (Output i)
    with assms False show ?thesis
      by (simp add: step_def waiter_inv_cong [OF output_step_frame(3,8,5,4,2,1,9)])
  next
    case (ClosedPipe i)
    with assms False show ?thesis
      by (simp add: step_def waiter_inv_def closed_pipe_step_frame split: waiter_pc.splits)
  next
    case Waiter
    with assms False show ?thesis by (simp add: step_def waiter_inv_waiter)
  next
    case ProcessExit
    with assms False show ?thesis
      by (simp add: step_def waiter_inv_def events_of_fields split: waiter_pc.splits)
  next
    case ConsumerLeaves
    with assms False show ?thesis
      by (simp add: step_def waiter_inv_def events_of_fields split: waiter_pc.splits)
  qed
qed

lemma waiter_inv_goroutines: "waiter_inv f0 g \<Longrightarrow> waiter_inv f0 (goroutines sched g)"
  by (induction sched arbitrary: g) (simp_all add: waiter_inv_step)

lemma waiter_inv_started: "waiter_inv (fired w) (started e c k w)"
  by (simp add: waiter_inv_def started_def events_of_def)

subsection \<open>The output goroutines\<close>

lemma texts_simps:
  "texts [] = []"
  "texts (xs @ ys) = texts xs @ texts ys"
  "texts [\<lparr>Line = t, Error = None\<rparr>] = [t]"
  "texts [\<lparr>Line = t, Error = Some err\<rparr>] = []"
  by (simp_all add: texts_def)

lemma errors_simps:
  "errors [] = []"
  "errors (xs @ ys) = errors xs @ errors ys"
  "errors [\<lparr>Line = t, Error = None\<rparr>] = []"
  "errors [\<lparr>Line = t, Error = Some err\<rparr>] = [\<lparr>Line = t, Error = Some err\<rparr>]"
  by (simp_all add: errors_def)

lemma output_inv_same:
  assumes "output_inv ls i g" and "\<not> panicked g"
  shows "output_inv ls i (output_step i g)"
proof (cases "pc (outputs g i)")
  case R_Add
  with assms show ?thesis
    by (auto simp: output_inv_def output_step_def set_pc_def events_of_fields Let_def)
next
  case R_Scan
  with assms show ?thesis
    by (auto simp: output_inv_def output_step_def set_pc_def events_of_fields Let_def
        split: list.splits option.splits)
next
  case (R_SendLine ln)
  with assms show ?thesis
    by (auto simp: output_inv_def output_step_def set_pc_def send_def events_of_fields
        events_of_simps texts_simps errors_simps line_event_def Let_def)
next
  case (R_SendErr err)
  with assms show ?thesis
    by (auto simp: output_inv_def output_step_def set_pc_def send_def events_of_fields
        events_of_simps texts_simps errors_simps line_event_def Let_def)
next
  case R_Done
  with assms show ?thesis
    by (auto simp: output_inv_def output_step_def set_pc_def events_of_fields Let_def)
next
  case R_End
  with assms show ?thesis
    by (simp add: output_inv_def output_step_def)
qed

lemma output_step_other:
  assumes "j \<noteq> i"
  shows "outputs (output_step j g) i = outputs g i"
    and "events_of (ByOutput i) (output_step j g) = events_of (ByOutput i) g"
  using assms
  by (auto simp: output_step_def set_pc_def send_def events_of_fields events_of_simps
      split: output_pc.splits list.splits option.splits)

lemma output_inv_cong:
  "outputs g' i = outputs g i \<Longrightarrow> events_of (ByOutput i) g' = events_of (ByOutput i) g \<Longrightarrow>
   output_inv ls i g' = output_inv ls i g"
  by (simp add: output_inv_def)

lemma closed_pipe_step_other:
  assumes "j \<noteq> i"
  shows "outputs (closed_pipe_step j g) i = outputs g i"
    and "events_of (ByOutput i) (closed_pipe_step j g) = events_of (ByOutput i) g"
  using assms by (auto simp: closed_pipe_step_def set_pc_def events_of_fields)

lemma output_inv_closed_pipe:
  assumes "output_inv ls i g"
  shows "output_inv ls i (closed_pipe_step j g)"
proof (cases "j = i")
  case True
  with assms show ?thesis
    by (auto simp: output_inv_def closed_pipe_step_def set_pc_def events_of_fields Let_def)
next
  case False
  with assms show ?thesis
    by (simp add: output_inv_cong [OF closed_pipe_step_other])
qed

lemma output_inv_step: "output_inv ls i g \<Longrightarrow> output_inv ls i (step a g)"
proof (cases "panicked g")
  case True
  assume "output_inv ls i g"
  with True show ?thesis by (simp add: step_def)
next
  case False
  assume inv: "output_inv ls i g"
  show ?thesis
  proof (cases a)
    case (Output j)
    show ?thesis
    proof (cases "j = i")
      case True
      with inv False Output show ?thesis by (simp add: step_def output_inv_same)
    next
      case ne: False
      with inv False Output show ?thesis
        by (simp add: step_def output_inv_cong [OF output_step_other])
    qed
  next
    case (ClosedPipe j)
    with inv False show ?thesis by (simp add: step_def output_inv_closed_pipe)
  next
    case Waiter
    with inv False show ?thesis
      by (simp add: step_def output_inv_def waiter_step_frame)
  next
    case ProcessExit
    with inv False show ?thesis
      by (simp add: step_def output_inv_def events_of_fields)
  next
    case ConsumerLeaves
    with inv False show ?thesis
      by (simp add: step_def output_inv_def events_of_fields)
  qed
qed

lemma output_inv_goroutines: "output_inv ls i g \<Longrightarrow> output_inv ls i (goroutines sched g)"
  by (induction sched arbitrary: g) (simp_all add: output_inv_step)

lemma output_inv_started:
  "output_inv (fst (scan_stdout e k)) Stdout (started e c k w)"
  "output_inv (fst (scan_stderr e k)) Stderr (started e c k w)"
  by (simp_all add: output_inv_def started_def events_of_def texts_simps errors_simps)

subsection \<open>After the channel is closed\<close>




lemma start_started:
  assumes "start e c args w = ((Some g0, None), c1, w1)"
  shows "g0 = started e c1 \<lparr>Args = ''vagrant'' # args, Dir = cwd c\<rparr> w1"
    and "c1 = c\<lparr>cmd := Some \<lparr>Args = ''vagrant'' # args, Dir = cwd c\<rparr>\<rparr>"
    and "fired w1 = fired w"
  using assms
  by (auto simp: start_def init_def exec_Start_def Let_def fired_debugf
      split: option.splits prod.splits)

subsection \<open>When both \<^verbatim>\<open>wg.Add(1)\<close> come first\<close>

lemma running_simps:
  "running (r\<lparr>pc := p\<rparr>) = (if p = R_End then 0 else 1)"
  "running (r\<lparr>pending := ps\<rparr>) = running r"
  "0 \<le> running r" "running r \<le> 1"
  by (simp_all add: running_def)

lemma running_0: "(running r = 0) = (pc r = R_End)"
  by (simp add: running_def)

lemma running_sum_0: "(running r + running r' = 0) = (pc r = R_End \<and> pc r' = R_End)"
  by (simp add: running_def)

lemma added_inv_output:
  assumes "added_inv g" and "\<not> panicked g"
  shows "added_inv (output_step i g)"
proof (cases "pc (outputs g i) = R_End")
  case True
  with assms show ?thesis by (simp add: output_step_def)
next
  case False
  with assms have w: "waiter g = W_WgWait"
    by (cases i) (auto simp: added_inv_def)
  have one: "running (outputs g i) = 1"
    using False by (simp add: running_def)
  show ?thesis
  proof (cases i)
    case Stdout
    with assms w one False show ?thesis
      by (cases "pc (outputs g Stdout)")
         (auto simp: added_inv_def output_step_def set_pc_def send_def running_simps
          split: list.splits option.splits)
  next
    case Stderr
    with assms w one False show ?thesis
      by (cases "pc (outputs g Stderr)")
         (auto simp: added_inv_def output_step_def set_pc_def send_def running_simps
          split: list.splits option.splits)
  qed
qed

lemma added_inv_closed_pipe: "added_inv g \<Longrightarrow> added_inv (closed_pipe_step i g)"
  by (cases i) (auto simp: added_inv_def closed_pipe_step_def set_pc_def running_def)

lemma added_inv_waiter:
  assumes "added_inv g" and "\<not> panicked g"
  shows "added_inv (waiter_step g)"
proof (cases "waiter g = W_WgWait")
  case True
  with assms show ?thesis
    by (auto simp: added_inv_def waiter_step_def running_sum_0)
next
  case False
  with assms have "waiter (waiter_step g) \<noteq> W_WgWait"
    by (auto simp: waiter_step_def send_def split: waiter_pc.splits option.splits)
  with assms False show ?thesis
    by (simp add: added_inv_def waiter_step_frame)
qed

lemma added_inv_step:
  assumes "added_inv g"
  shows "added_inv (step a g)"
proof (cases "panicked g")
  case True
  with assms show ?thesis by (simp add: step_def)
next
  case False
  with assms show ?thesis
    by (cases a)
       (simp_all add: step_def added_inv_output added_inv_closed_pipe added_inv_waiter,
        simp_all add: added_inv_def)
qed

lemma added_inv_goroutines: "added_inv g \<Longrightarrow> added_inv (goroutines sched g)"
  by (induction sched arbitrary: g) (simp_all add: added_inv_step)

lemma added_inv_started:
  "added_inv (goroutines [Output Stdout, Output Stderr] (started e c k w))"
  by (simp add: added_inv_def started_def step_defs running_def)

lemma output_inv_added:
  "output_inv ls i g \<Longrightarrow> output_inv ls i (goroutines [Output Stdout, Output Stderr] g)"
  by (rule output_inv_goroutines)

text \<open>
  The line events received are those of the two \<^verbatim>\<open>output\<close> goroutines: the waiting
  goroutine sends error events only.
\<close>

lemma texts_by_sender:
  "length (texts (map snd rs))
     = length (texts (map snd (filter (\<lambda>x. fst x = ByOutput Stdout) rs)))
       + length (texts (map snd (filter (\<lambda>x. fst x = ByOutput Stderr) rs)))
       + length (texts (map snd (filter (\<lambda>x. fst x = ByWaiter) rs)))"
proof (induction rs)
  case Nil
  show ?case by (simp add: texts_def)
next
  case (Cons r rs)
  obtain who ev where r: "r = (who, ev)" by (cases r)
  show ?case
  proof (cases who)
    case (ByOutput i)
    with Cons r show ?thesis by (cases i) (simp_all add: texts_def)
  next
    case ByWaiter
    with Cons r show ?thesis by (simp add: texts_def)
  qed
qed

lemma waiter_sends_no_line:
  assumes "waiter_inv f0 g"
  shows "texts (events_of ByWaiter g) = []"
  using assms
  by (cases "waiter g")
     (auto simp: waiter_inv_def texts_def error_event_def split: option.splits)

text \<open>
  What C1 says, for the schedules in which both \<^verbatim>\<open>wg.Add(1)\<close> come before
  \<^verbatim>\<open>wg.Wait()\<close>: once the channel is closed and no error event was received, the
  consumer has received every line of stdout and every line of stderr, each stream's
  lines in their order, and no other line event.
\<close>

lemma all_lines_when_added_first:
  assumes "start e c args w = ((Some g0, None), c1, w1)"
    and "g = goroutines ([Output Stdout, Output Stderr] @ sched) g0"
    and "closed g"
    and "errors (events_of (ByOutput Stdout) g) = []"
    and "errors (events_of (ByOutput Stderr) g) = []"
  shows "events_of (ByOutput Stdout) g
           = map line_event (fst (scan_stdout e \<lparr>Args = ''vagrant'' # args, Dir = cwd c\<rparr>))"
    and "events_of (ByOutput Stderr) g
           = map line_event (fst (scan_stderr e \<lparr>Args = ''vagrant'' # args, Dir = cwd c\<rparr>))"
    and "length (texts (map snd (received g)))
           = length (fst (scan_stdout e \<lparr>Args = ''vagrant'' # args, Dir = cwd c\<rparr>))
             + length (fst (scan_stderr e \<lparr>Args = ''vagrant'' # args, Dir = cwd c\<rparr>))"
proof -
  let ?k = "\<lparr>Args = ''vagrant'' # args, Dir = cwd c\<rparr>"
  have g0: "g0 = started e c1 ?k w1"
    using assms(1) by (rule start_started)
  have g: "g = goroutines sched (goroutines [Output Stdout, Output Stderr] g0)"
    using assms(2) by (simp only: goroutines_append)
  have added: "added_inv g"
    unfolding g g0 by (rule added_inv_goroutines [OF added_inv_started])
  have winv: "waiter_inv (fired w1) g"
    unfolding g g0
    by (intro waiter_inv_goroutines waiter_inv_started)
  have "waiter g \<noteq> W_WgWait"
    using winv \<open>closed g\<close> by (auto simp: waiter_inv_def)
  with added have ended: "pc (outputs g Stdout) = R_End" "pc (outputs g Stderr) = R_End"
    by (simp_all add: added_inv_def)
  have out: "output_inv (fst (scan_stdout e ?k)) Stdout g"
    unfolding g g0
    by (intro output_inv_goroutines output_inv_started)
  have err: "output_inv (fst (scan_stderr e ?k)) Stderr g"
    unfolding g g0
    by (intro output_inv_goroutines output_inv_started)
  have t1: "texts (events_of (ByOutput Stdout) g) = fst (scan_stdout e ?k)"
    using out ended(1) assms(4) by (auto simp: output_inv_def Let_def)
  have t2: "texts (events_of (ByOutput Stderr) g) = fst (scan_stderr e ?k)"
    using err ended(2) assms(5) by (auto simp: output_inv_def Let_def)
  have s1: "map line_event (texts (events_of (ByOutput Stdout) g)) = events_of (ByOutput Stdout) g"
    using out assms(4) by (auto simp: output_inv_def Let_def)
  have s2: "map line_event (texts (events_of (ByOutput Stderr) g)) = events_of (ByOutput Stderr) g"
    using err assms(5) by (auto simp: output_inv_def Let_def)
  show "events_of (ByOutput Stdout) g = map line_event (fst (scan_stdout e ?k))"
    using s1 unfolding t1 by (rule sym)
  show "events_of (ByOutput Stderr) g = map line_event (fst (scan_stderr e ?k))"
    using s2 unfolding t2 by (rule sym)
  show "length (texts (map snd (received g)))
      = length (fst (scan_stdout e ?k)) + length (fst (scan_stderr e ?k))"
    using texts_by_sender [of "received g"] t1 t2 waiter_sends_no_line [OF winv]
    by (simp add: events_of_def)
qed

subsection \<open>A run that loses its lines\<close>

text \<open>
  C1, on the code: a process writes the single line "hello" to stdout, nothing to
  stderr, and exits with status 0. The waiting goroutine runs \<^verbatim>\<open>wg.Wait()\<close> before
  either \<^verbatim>\<open>output\<close> goroutine has run \<^verbatim>\<open>wg.Add(1)\<close>, so the counter is still 0 and
  \<^verbatim>\<open>wg.Wait()\<close> returns; the process exits (its line fits the pipe); \<^verbatim>\<open>Wait\<close> returns
  and the goroutine closes the channel. The channel is then closed with no line event
  received, where N + M = 1; and the \<^verbatim>\<open>output\<close> goroutine of stdout, when it runs,
  panics in its send on the closed channel.
\<close>

theorem start_closes_before_lines:
  "(case start hello_env (newCommand ''/box'' False) [''up''] empty_world of
      ((Some g, None), c, w) \<Rightarrow>
         fst (scan_stdout hello_env \<lparr>Args = [''vagrant'', ''up''], Dir = ''/box''\<rparr>) = [''hello'']
         \<and> closed (goroutines [Waiter, ProcessExit, Waiter, Waiter] g)
         \<and> received (goroutines [Waiter, ProcessExit, Waiter, Waiter] g) = []
         \<and> panicked (goroutines [Waiter, ProcessExit, Waiter, Waiter,
                                   Output Stdout, Output Stdout, Output Stdout] g)
         \<and> received (goroutines [Waiter, ProcessExit, Waiter, Waiter,
                                   Output Stdout, Output Stdout, Output Stdout] g) = []
    | _ \<Rightarrow> False)"
  by (simp add: start_def init_def hello_env_def sample_env_def newCommand_def exec_Start_def
      empty_world_def Let_def started_def step_defs debugf_def)

subsection \<open>The completion callbacks\<close>




text \<open>From such a state no schedule ever fires a callback.\<close>

lemma blocked_forever:
  assumes "waiter g = W_SendErr err" and "\<not> draining g" and "\<not> closed g"
  shows "fired (wld (goroutines sched g)) = fired (wld g)
         \<and> waiter (goroutines sched g) = W_SendErr err"
  using assms
proof (induction sched arbitrary: g)
  case Nil
  then show ?case by simp
next
  case (Cons a sched)
  have s: "waiter (step a g) = W_SendErr err \<and> \<not> draining (step a g) \<and> \<not> closed (step a g)
      \<and> fired (wld (step a g)) = fired (wld g)"
    using Cons.prems
    by (cases a)
       (simp_all add: step_def output_step_frame closed_pipe_step_frame waiter_step_def
        send_def)
  with Cons.IH [of "step a g"] show ?case by simp
qed

subsection \<open>The events on the channel\<close>





end
